theory Spec2Isabelle
  imports Main "HOL-Library.AList"
begin

section \<open>Python values\<close>

text \<open>
  A Python \<open>str\<close> is a sequence of Unicode code points; \<open>len\<close> and slicing count code
  points. The templates of the bot contain emoji beyond the range of \<^typ>\<open>char\<close>, so a
  string is a list of code points. \<open>u\<close> embeds an ASCII literal.
\<close>

type_synonym pystr = "nat list"

definition u :: "string \<Rightarrow> pystr" where
  "u s = map of_char s"

text \<open>
  The values \<open>json.loads\<close> and \<open>resp.json()\<close> produce. A JSON object is a \<open>dict\<close>
  with string keys in insertion order: an association list whose keys are distinct.
  Floats are kept abstract (type \<open>'f\<close>): the program never computes with them, it only
  converts and prints them, and those operations are taken from the runtime below.
\<close>

datatype 'f pyval =
    PNone
  | PBool bool
  | PInt int
  | PFloat 'f
  | PStr pystr
  | PList "'f pyval list"
  | PDict "(pystr \<times> 'f pyval) list"

text \<open>The exceptions the modelled code can raise.\<close>

datatype pyerr =
    AttributeError
  | TypeError
  | ValueError
  | KeyError
  | OverflowError
  | HTTPException

text \<open>
  The parts of the Python runtime and standard library that the bot calls and that are
  not written out here: the JSON codec, the printing and conversion of floats, and
  \<open>repr\<close> of a string. All of them are pure functions. \<open>None\<close> stands for a raised
  exception (\<open>json.loads\<close>: any decode error; \<open>float_of_int\<close>: \<open>OverflowError\<close>;
  \<open>float_of_str\<close>: \<open>ValueError\<close>).
\<close>

record 'f pyrt =
  json_loads :: "pystr \<Rightarrow> 'f pyval option"
  json_dumps :: "'f pyval \<Rightarrow> pystr"
  json_dumps_indent2 :: "'f pyval \<Rightarrow> pystr"
  float_repr :: "'f \<Rightarrow> pystr"
  float_fixed :: "nat \<Rightarrow> bool \<Rightarrow> 'f \<Rightarrow> pystr"
  float_of_int :: "int \<Rightarrow> 'f option"
  float_of_str :: "pystr \<Rightarrow> 'f option"
  float_truth :: "'f \<Rightarrow> bool"
  str_repr :: "pystr \<Rightarrow> pystr"

text \<open>
  \<open>json_dumps\<close> is \<open>json.dumps(v, default=str)\<close> and \<open>json_dumps_indent2\<close> is
  \<open>json.dumps(v, indent=2, default=str)\<close>; \<open>float_fixed n signed x\<close> is \<open>format(x, '.nf')\<close>,
  or \<open>format(x, '+.nf')\<close> when \<open>signed\<close> holds.
\<close>

subsection \<open>Errors as values\<close>

definition ebind :: "pyerr + 'a \<Rightarrow> ('a \<Rightarrow> pyerr + 'b) \<Rightarrow> pyerr + 'b" where
  "ebind m f = (case m of Inl e \<Rightarrow> Inl e | Inr x \<Rightarrow> f x)"

subsection \<open>str, repr and truth value\<close>

fun digits :: "nat \<Rightarrow> pystr" where
  "digits n = (if n < 10 then [48 + n] else digits (n div 10) @ [48 + n mod 10])"

declare digits.simps [simp del]

definition int_str :: "int \<Rightarrow> pystr" where
  "int_str i = (if i < 0 then 45 # digits (nat (- i)) else digits (nat i))"

fun join :: "pystr \<Rightarrow> pystr list \<Rightarrow> pystr" where
  "join sep [] = []"
| "join sep [x] = x"
| "join sep (x # y # ys) = x @ sep @ join sep (y # ys)"

fun py_repr :: "'f pyrt \<Rightarrow> 'f pyval \<Rightarrow> pystr" where
  "py_repr rt PNone = u ''None''"
| "py_repr rt (PBool b) = (if b then u ''True'' else u ''False'')"
| "py_repr rt (PInt i) = int_str i"
| "py_repr rt (PFloat x) = float_repr rt x"
| "py_repr rt (PStr s) = str_repr rt s"
| "py_repr rt (PList xs) = u ''['' @ join (u '', '') (map (py_repr rt) xs) @ u '']''"
| "py_repr rt (PDict kvs) =
     u ''{'' @ join (u '', '') (map (\<lambda>(k, v). str_repr rt k @ u '': '' @ py_repr rt v) kvs) @ u ''}''"

text \<open>\<open>str(v)\<close>, which is also what an f-string field without a format spec prints.\<close>

definition py_str :: "'f pyrt \<Rightarrow> 'f pyval \<Rightarrow> pystr" where
  "py_str rt v = (case v of PStr s \<Rightarrow> s | _ \<Rightarrow> py_repr rt v)"

text \<open>The truth value of \<open>v\<close> in \<open>if v\<close>, \<open>v or d\<close> and \<open>v and w\<close>.\<close>

fun py_bool :: "'f pyrt \<Rightarrow> 'f pyval \<Rightarrow> bool" where
  "py_bool rt PNone = False"
| "py_bool rt (PBool b) = b"
| "py_bool rt (PInt i) = (i \<noteq> 0)"
| "py_bool rt (PFloat x) = float_truth rt x"
| "py_bool rt (PStr s) = (s \<noteq> [])"
| "py_bool rt (PList xs) = (xs \<noteq> [])"
| "py_bool rt (PDict kvs) = (kvs \<noteq> [])"

subsection \<open>Attribute and item access\<close>

text \<open>\<open>d.get(k, dflt)\<close>: only a dict has the method.\<close>

fun dict_get :: "'f pyval \<Rightarrow> pystr \<Rightarrow> 'f pyval \<Rightarrow> pyerr + 'f pyval" where
  "dict_get (PDict kvs) k dflt = Inr (case map_of kvs k of Some v \<Rightarrow> v | None \<Rightarrow> dflt)"
| "dict_get v k dflt = Inl AttributeError"

text \<open>\<open>str(d.get(k, dflt))\<close>, as an f-string field \<open>{d.get(k, dflt)}\<close> prints it.\<close>

definition get_str :: "'f pyrt \<Rightarrow> 'f pyval \<Rightarrow> pystr \<Rightarrow> 'f pyval \<Rightarrow> pyerr + pystr" where
  "get_str rt d k dflt = ebind (dict_get d k dflt) (\<lambda>v. Inr (py_str rt v))"

text \<open>
  \<open>float(v)\<close>: an int may be too large, a string may not spell a number, a bool is an
  int; \<open>None\<close>, lists and dicts are refused.
\<close>

fun py_float :: "'f pyrt \<Rightarrow> 'f pyval \<Rightarrow> pyerr + 'f" where
  "py_float rt (PFloat x) = Inr x"
| "py_float rt (PInt i) = (case float_of_int rt i of Some x \<Rightarrow> Inr x | None \<Rightarrow> Inl OverflowError)"
| "py_float rt (PBool b) =
     (case float_of_int rt (if b then 1 else 0) of Some x \<Rightarrow> Inr x | None \<Rightarrow> Inl OverflowError)"
| "py_float rt (PStr s) = (case float_of_str rt s of Some x \<Rightarrow> Inr x | None \<Rightarrow> Inl ValueError)"
| "py_float rt v = Inl TypeError"

text \<open>
  The f-string field \<open>{v:.nf}\<close> (and \<open>{v:+.nf}\<close>): floats are printed, ints and bools
  are converted to float first, a string raises \<open>ValueError\<close> (unknown format code),
  \<open>None\<close>, lists and dicts raise \<open>TypeError\<close> (unsupported format string).
\<close>

fun format_f :: "'f pyrt \<Rightarrow> nat \<Rightarrow> bool \<Rightarrow> 'f pyval \<Rightarrow> pyerr + pystr" where
  "format_f rt n signed (PFloat x) = Inr (float_fixed rt n signed x)"
| "format_f rt n signed (PInt i) =
     (case float_of_int rt i of Some x \<Rightarrow> Inr (float_fixed rt n signed x) | None \<Rightarrow> Inl OverflowError)"
| "format_f rt n signed (PBool b) =
     (case float_of_int rt (if b then 1 else 0) of
        Some x \<Rightarrow> Inr (float_fixed rt n signed x) | None \<Rightarrow> Inl OverflowError)"
| "format_f rt n signed (PStr s) = Inl ValueError"
| "format_f rt n signed v = Inl TypeError"

section \<open>The external services\<close>

text \<open>
  The VPS dashboard API, the Ollama backend and the Discord report channel are outside
  the program. They are arbitrary state machines over a world \<open>'w\<close>:
  \<^item> \<open>http_post w body\<close> is \<open>requests.post(..., json=body, timeout=15)\<close>: it raises
    (connection error, timeout) or returns a response;
  \<^item> \<open>ollama_chat w prompt max_tokens\<close> is the expression
    \<open>ol.chat(...)["message"]["content"]\<close>: \<open>None\<close> when importing, calling or indexing
    raised or the content is not a string;
  \<^item> \<open>channel_send w msg\<close> is \<open>await report_channel.send(msg)\<close>: \<open>False\<close> when it raised.
  A response carries its status code and what \<open>resp.json()\<close> gives (\<open>None\<close> when
  it raises); its text is only logged.
\<close>

record 'f response =
  status_code :: int
  json :: "'f pyval option"

datatype 'f http_result = Raised | Returned "'f response"

record ('f, 'w) env =
  http_post :: "'w \<Rightarrow> (pystr \<times> 'f pyval) list \<Rightarrow> 'f http_result \<times> 'w"
  ollama_chat :: "'w \<Rightarrow> pystr \<Rightarrow> nat \<Rightarrow> pystr option \<times> 'w"
  channel_send :: "'w \<Rightarrow> pystr \<Rightarrow> bool \<times> 'w"

section \<open>VPS API client\<close>

text \<open>
  \<open>call_vps_api(action, extra_data=None)\<close>. The request body is \<open>{"action": action}\<close>
  updated with \<open>extra_data\<close> when that is given and not empty. The \<open>try\<close> block either
  returns or raises; the \<open>except Exception\<close> clause turns every exception into \<open>None\<close>.
  Logging is left out.
\<close>

definition request_body :: "pystr \<Rightarrow> (pystr \<times> 'f pyval) list option \<Rightarrow> (pystr \<times> 'f pyval) list" where
  "request_body action extra_data =
     (case extra_data of
        None \<Rightarrow> [(u ''action'', PStr action)]
      | Some extra \<Rightarrow>
          if extra \<noteq> [] then AList.updates (map fst extra) (map snd extra) [(u ''action'', PStr action)]
          else [(u ''action'', PStr action)])"

definition try_post :: "'f http_result \<Rightarrow> pyerr + 'f pyval" where
  "try_post r =
     (case r of
        Raised \<Rightarrow> Inl HTTPException
      | Returned resp \<Rightarrow>
          if status_code resp = 200 then
            (case json resp of Some v \<Rightarrow> Inr v | None \<Rightarrow> Inl ValueError)
          else Inr PNone)"

definition call_vps_api ::
  "('f, 'w) env \<Rightarrow> pystr \<Rightarrow> (pystr \<times> 'f pyval) list option \<Rightarrow> 'w \<Rightarrow> (pyerr + 'f pyval) \<times> 'w" where
  "call_vps_api env action extra_data w =
     (case http_post env w (request_body action extra_data) of
        (r, w') \<Rightarrow>
          (case try_post r of
             Inr v \<Rightarrow> (Inr v, w')
           | Inl e \<Rightarrow> (Inr PNone, w')))"

section \<open>Ollama formatting\<close>

text \<open>\<open>str.isspace\<close> of one code point, and \<open>str.strip()\<close>.\<close>

definition py_isspace :: "nat \<Rightarrow> bool" where
  "py_isspace c \<longleftrightarrow>
     (9 \<le> c \<and> c \<le> 13) \<or> (28 \<le> c \<and> c \<le> 32) \<or> c = 133 \<or> c = 160 \<or> c = 5760 \<or>
     (8192 \<le> c \<and> c \<le> 8202) \<or> c = 8232 \<or> c = 8233 \<or> c = 8239 \<or> c = 8287 \<or> c = 12288"

definition strip :: "pystr \<Rightarrow> pystr" where
  "strip s = rev (dropWhile py_isspace (rev (dropWhile py_isspace s)))"

text \<open>
  \<open>call_ollama(prompt, max_tokens)\<close>: the generated text, stripped, or \<open>None\<close> when
  anything in the \<open>try\<close> block raised.
\<close>

definition call_ollama :: "('f, 'w) env \<Rightarrow> pystr \<Rightarrow> nat \<Rightarrow> 'w \<Rightarrow> pystr option \<times> 'w" where
  "call_ollama env prompt max_tokens w =
     (case ollama_chat env w prompt max_tokens of
        (Some content, w') \<Rightarrow> (Some (strip content), w')
      | (None, w') \<Rightarrow> (None, w'))"

text \<open>The truth value of an optional string: \<open>if result\<close>.\<close>

definition has_text :: "pystr option \<Rightarrow> bool" where
  "has_text r = (case r of Some s \<Rightarrow> s \<noteq> [] | None \<Rightarrow> False)"

text \<open>
  Lines 72 to 77 of \<open>format_event_with_ollama\<close>: the metadata after the decode attempt.
  A string that does not decode is kept (\<open>except: pass\<close>).
\<close>

definition prompt_metadata :: "'f pyrt \<Rightarrow> 'f pyval \<Rightarrow> pyerr + 'f pyval" where
  "prompt_metadata rt event =
     ebind (dict_get event (u ''metadata'') PNone) (\<lambda>meta.
       case meta of
         PStr s \<Rightarrow> (case json_loads rt s of Some v \<Rightarrow> Inr v | None \<Rightarrow> Inr (PStr s))
       | _ \<Rightarrow> Inr meta)"

text \<open>Lines 78 to 85: the prompt.\<close>

definition event_prompt :: "'f pyrt \<Rightarrow> 'f pyval \<Rightarrow> pyerr + pystr" where
  "event_prompt rt event =
     ebind (prompt_metadata rt event) (\<lambda>meta.
     ebind (get_str rt event (u ''event_type'') PNone) (\<lambda>et.
     ebind (get_str rt event (u ''symbol'') (PStr (u ''N/A''))) (\<lambda>sym.
     ebind (get_str rt event (u ''created_at'') (PStr [])) (\<lambda>created.
       Inr (u ''Format this trading event as a short Discord message. ''
          @ u ''Use emoji. Keep under 300 characters. Be concise.'' @ [10, 10]
          @ u ''Type: '' @ et @ [10]
          @ u ''Symbol: '' @ sym @ [10]
          @ u ''Data: '' @ take 500 (json_dumps rt meta) @ [10]
          @ u ''Time: '' @ created)))))"

text \<open>
  Lines 96 to 102 of \<open>format_event_fallback\<close>: the metadata the templates read. A
  string that does not decode is replaced by the empty dict (\<open>except: meta = {}\<close>), and so
  is every false value (\<open>meta or {}\<close>).
\<close>

definition fallback_metadata :: "'f pyrt \<Rightarrow> 'f pyval \<Rightarrow> pyerr + 'f pyval" where
  "fallback_metadata rt event =
     ebind (dict_get event (u ''metadata'') PNone) (\<lambda>meta0.
       let meta = (case meta0 of
                     PStr s \<Rightarrow> (case json_loads rt s of Some v \<Rightarrow> v | None \<Rightarrow> PDict [])
                   | _ \<Rightarrow> meta0)
       in Inr (if py_bool rt meta then meta else PDict []))"

text \<open>A dict key must be hashable: \<open>templates.get(et, ...)\<close> raises on a list or dict.\<close>

fun hashable :: "'f pyval \<Rightarrow> bool" where
  "hashable (PList xs) = False"
| "hashable (PDict kvs) = False"
| "hashable v = True"

text \<open>
  \<open>format_event_fallback(event)\<close>. The dict of lambdas is a dispatch on \<open>et\<close>; only
  the chosen template is evaluated. The leading numbers are the code points of the emoji.
\<close>

definition format_event_fallback :: "'f pyrt \<Rightarrow> 'f pyval \<Rightarrow> pyerr + pystr" where
  "format_event_fallback rt event =
     ebind (dict_get event (u ''event_type'') (PStr (u ''UNKNOWN''))) (\<lambda>et.
     ebind (dict_get event (u ''symbol'') (PStr [])) (\<lambda>sym.
     ebind (fallback_metadata rt event) (\<lambda>meta.
       if \<not> hashable et then Inl TypeError
       else if et = PStr (u ''BUY'') then
         ebind (get_str rt meta (u ''price'') (PStr (u ''?''))) (\<lambda>price.
         ebind (get_str rt meta (u ''confidence'') (PStr (u ''?''))) (\<lambda>conf.
         ebind (get_str rt meta (u ''reasoning'') (PStr [])) (\<lambda>reasoning.
           Inr ([128994] @ u '' **BUY** '' @ py_str rt sym @ u '' @ $'' @ price
              @ u '' | Conf: '' @ conf @ u '' | '' @ take 100 reasoning))))
       else if et = PStr (u ''SELL'') then
         ebind (get_str rt meta (u ''price'') (PStr (u ''?''))) (\<lambda>price.
         ebind (get_str rt meta (u ''pnl'') (PStr (u ''?''))) (\<lambda>pnl.
         ebind (get_str rt meta (u ''pnl_percent'') (PStr (u ''?''))) (\<lambda>pct.
           Inr ([128308] @ u '' **SELL** '' @ py_str rt sym @ u '' @ $'' @ price
              @ u '' | P&L: $'' @ pnl @ u '' ('' @ pct @ u ''%)''))))
       else if et = PStr (u ''DCA'') then
         ebind (get_str rt meta (u ''price'') (PStr (u ''?''))) (\<lambda>price.
         ebind (get_str rt meta (u ''new_avg_entry'') (PStr (u ''?''))) (\<lambda>avg.
           Inr ([128309] @ u '' **DCA** '' @ py_str rt sym @ u '' @ $'' @ price
              @ u '' | New avg: $'' @ avg)))
       else if et = PStr (u ''PARTIAL_EXIT'') then
         ebind (get_str rt meta (u ''exit_percent'') (PStr [])) (\<lambda>exit_pct.
         ebind (get_str rt meta (u ''price'') (PStr (u ''?''))) (\<lambda>price.
         ebind (get_str rt meta (u ''pnl'') (PStr (u ''?''))) (\<lambda>pnl.
           Inr ([128176] @ u '' **PARTIAL EXIT** '' @ py_str rt sym @ u '' '' @ exit_pct
              @ u ''% @ $'' @ price @ u '' | P&L: $'' @ pnl))))
       else if et = PStr (u ''CIRCUIT_BREAKER'') then
         ebind (get_str rt meta (u ''consecutive_losses'') (PStr (u ''?''))) (\<lambda>losses.
         ebind (get_str rt meta (u ''cooldown_hours'') (PStr (u ''?''))) (\<lambda>hours.
           Inr ([9888, 65039] @ u '' **CIRCUIT BREAKER** | '' @ losses
              @ u '' losses | Pausing '' @ hours @ u ''h'')))
       else if et = PStr (u ''HOURLY_SUMMARY'') then
         ebind (get_str rt meta (u ''open_positions'') (PInt 0)) (\<lambda>positions.
         ebind (dict_get meta (u ''unrealized_pnl'') (PInt 0)) (\<lambda>unrealized.
         ebind (format_f rt 2 False unrealized) (\<lambda>unrealized_s.
         ebind (dict_get meta (u ''realized_pnl'') (PInt 0)) (\<lambda>realized.
         ebind (format_f rt 2 False realized) (\<lambda>realized_s.
           Inr ([128202] @ u '' **Hourly** | '' @ positions @ u '' positions | P&L: $''
              @ unrealized_s @ u '' unrealized, $'' @ realized_s @ u '' realized''))))))
       else if et = PStr (u ''ENGINE_START'') then
         ebind (get_str rt meta (u ''symbols'') (PStr (u ''?''))) (\<lambda>symbols.
         ebind (get_str rt meta (u ''capital'') (PStr (u ''?''))) (\<lambda>capital.
         ebind (get_str rt meta (u ''paper_trading'') (PStr (u ''?''))) (\<lambda>paper.
           Inr ([128640] @ u '' **Engine Started** | '' @ symbols @ u '' symbols | $''
              @ capital @ u '' capital | Paper: '' @ paper))))
       else if et = PStr (u ''ENGINE_STOP'') then
         ebind (get_str rt meta (u ''cycle_count'') (PStr (u ''?''))) (\<lambda>cycles.
           Inr ([128721] @ u '' **Engine Stopped** | '' @ cycles @ u '' cycles completed''))
       else
         Inr ([128204] @ u '' **'' @ py_str rt et @ u ''** '' @ py_str rt sym @ u '' | ''
            @ take 200 (json_dumps rt meta)))))"

text \<open>
  \<open>format_event_with_ollama(event)\<close>: the prompt is built, the backend is asked for at
  most 200 tokens, a non-empty answer is cut to 500 characters, anything else falls
  back to the templates.
\<close>

definition format_event_with_ollama ::
  "'f pyrt \<Rightarrow> ('f, 'w) env \<Rightarrow> 'f pyval \<Rightarrow> 'w \<Rightarrow> (pyerr + pystr) \<times> 'w" where
  "format_event_with_ollama rt env event w =
     (case event_prompt rt event of
        Inl e \<Rightarrow> (Inl e, w)
      | Inr prompt \<Rightarrow>
          (case call_ollama env prompt 200 w of
             (Some result, w') \<Rightarrow>
               if result \<noteq> [] then (Inr (take 500 result), w')
               else (format_event_fallback rt event, w')
           | (None, w') \<Rightarrow> (format_event_fallback rt event, w')))"

section \<open>User query handler\<close>

subsection \<open>Operators on values\<close>

text \<open>\<open>k in s\<close> for strings: \<open>k\<close> occurs in \<open>s\<close> as a contiguous piece.\<close>

primrec contains_str :: "pystr \<Rightarrow> pystr \<Rightarrow> bool" where
  "contains_str [] k = (k = [])"
| "contains_str (c # cs) k = (take (length k) (c # cs) = k \<or> contains_str cs k)"

text \<open>
  \<open>k in v\<close> for a string \<open>k\<close>: a key of a dict, an element of a list, a piece of a
  string; every other value is not iterable.
\<close>

fun py_in :: "pystr \<Rightarrow> 'f pyval \<Rightarrow> pyerr + bool" where
  "py_in k (PDict kvs) = Inr (map_of kvs k \<noteq> None)"
| "py_in k (PList xs) = Inr (PStr k \<in> set xs)"
| "py_in k (PStr s) = Inr (contains_str s k)"
| "py_in k v = Inl TypeError"

text \<open>\<open>v[k]\<close> for a string \<open>k\<close>: a missing key raises, a list or string wants an integer.\<close>

fun py_getitem :: "'f pyval \<Rightarrow> pystr \<Rightarrow> pyerr + 'f pyval" where
  "py_getitem (PDict kvs) k = (case map_of kvs k of Some v \<Rightarrow> Inr v | None \<Rightarrow> Inl KeyError)"
| "py_getitem v k = Inl TypeError"

fun py_len :: "'f pyval \<Rightarrow> pyerr + nat" where
  "py_len (PDict kvs) = Inr (length kvs)"
| "py_len (PList xs) = Inr (length xs)"
| "py_len (PStr s) = Inr (length s)"
| "py_len v = Inl TypeError"

text \<open>\<open>v[:n]\<close>: lists and strings can be sliced; a dict refuses a slice as key.\<close>

fun py_take :: "nat \<Rightarrow> 'f pyval \<Rightarrow> pyerr + 'f pyval" where
  "py_take n (PList xs) = Inr (PList (take n xs))"
| "py_take n (PStr s) = Inr (PStr (take n s))"
| "py_take n v = Inl TypeError"

text \<open>
  The items a \<open>for\<close> loop visits: the elements of a list, the keys of a dict, the
  characters of a string.
\<close>

fun py_iter :: "'f pyval \<Rightarrow> pyerr + 'f pyval list" where
  "py_iter (PList xs) = Inr xs"
| "py_iter (PDict kvs) = Inr (map (\<lambda>kv. PStr (fst kv)) kvs)"
| "py_iter (PStr s) = Inr (map (\<lambda>c. PStr [c]) s)"
| "py_iter v = Inl TypeError"

text \<open>The guard \<open>v and "data" in v\<close>.\<close>

definition has_data :: "'f pyrt \<Rightarrow> 'f pyval \<Rightarrow> pyerr + bool" where
  "has_data rt v = (if py_bool rt v then py_in (u ''data'') v else Inr False)"

text \<open>The f-string field \<open>{d.get(k, dflt):.nf}\<close>.\<close>

definition get_fmt :: "'f pyrt \<Rightarrow> nat \<Rightarrow> bool \<Rightarrow> 'f pyval \<Rightarrow> pystr \<Rightarrow> 'f pyval \<Rightarrow> pyerr + pystr" where
  "get_fmt rt n signed d k dflt = ebind (dict_get d k dflt) (format_f rt n signed)"

subsection \<open>The context document\<close>

text \<open>Lines 130 to 137: the portfolio paragraph, empty when the guard fails.\<close>

definition portfolio_context :: "'f pyrt \<Rightarrow> 'f pyval \<Rightarrow> pyerr + pystr" where
  "portfolio_context rt portfolio =
     ebind (has_data rt portfolio) (\<lambda>ok.
       if \<not> ok then Inr []
       else
         ebind (py_getitem portfolio (u ''data'')) (\<lambda>p.
         ebind (get_str rt p (u ''open_count'') (PInt 0)) (\<lambda>open_count.
         ebind (get_str rt p (u ''max_positions'') (PInt 5)) (\<lambda>max_positions.
         ebind (get_fmt rt 2 False p (u ''total_invested'') (PInt 0)) (\<lambda>invested.
         ebind (get_fmt rt 2 False p (u ''available_capital'') (PInt 0)) (\<lambda>available.
         ebind (get_fmt rt 2 False p (u ''unrealized_pnl'') (PInt 0)) (\<lambda>unrealized.
         ebind (get_fmt rt 1 False p (u ''unrealized_pnl_percent'') (PInt 0)) (\<lambda>unrealized_pct.
         ebind (get_fmt rt 2 False p (u ''realized_pnl'') (PInt 0)) (\<lambda>realized.
         ebind (get_fmt rt 1 False p (u ''win_rate'') (PInt 0)) (\<lambda>win_rate.
         ebind (get_str rt p (u ''total_trades'') (PInt 0)) (\<lambda>total_trades.
           Inr (u ''Portfolio: '' @ open_count @ u ''/'' @ max_positions @ u '' positions | ''
              @ u ''Invested: $'' @ invested @ u '' | ''
              @ u ''Available: $'' @ available @ u '' | ''
              @ u ''Unrealized: $'' @ unrealized @ u '' ('' @ unrealized_pct @ u ''%) | ''
              @ u ''Realized: $'' @ realized @ u '' | ''
              @ u ''Win rate: '' @ win_rate @ u ''% ('' @ total_trades @ u '' trades)''
              @ [10, 10]))))))))))))"

text \<open>Lines 143 to 147: the line of one position.\<close>

definition position_line :: "'f pyrt \<Rightarrow> 'f pyval \<Rightarrow> pyerr + pystr" where
  "position_line rt pos =
     ebind (dict_get pos (u ''symbol'') (PStr (u ''?''))) (\<lambda>sym.
     ebind (dict_get pos (u ''avg_entry_price'') (PInt 0)) (\<lambda>entry0.
     ebind (py_float rt entry0) (\<lambda>entry.
     ebind (dict_get pos (u ''live_price'') PNone) (\<lambda>live_price.
     ebind (if py_bool rt live_price then Inr live_price
            else ebind (dict_get pos (u ''current_price'') (PInt 0)) (\<lambda>current.
                 ebind (py_float rt current) (\<lambda>x. Inr (PFloat x)))) (\<lambda>live.
     ebind (dict_get pos (u ''live_pnl_percent'') (PInt 0)) (\<lambda>pnl_pct.
     ebind (format_f rt 2 False live) (\<lambda>live_s.
     ebind (format_f rt 1 True pnl_pct) (\<lambda>pnl_s.
       Inr (u ''  '' @ py_str rt sym @ u '': entry $'' @ float_fixed rt 2 False entry
          @ u '', now $'' @ live_s @ u '' ('' @ pnl_s @ u ''%)'' @ [10])))))))))"

text \<open>The body of a \<open>for\<close> loop that appends one line per item to the context.\<close>

fun context_lines :: "('a \<Rightarrow> pyerr + pystr) \<Rightarrow> 'a list \<Rightarrow> pyerr + pystr" where
  "context_lines line [] = Inr []"
| "context_lines line (x # xs) =
     ebind (line x) (\<lambda>l. ebind (context_lines line xs) (\<lambda>ls. Inr (l @ ls)))"

text \<open>Lines 139 to 148: the open positions, at most five.\<close>

definition positions_context :: "'f pyrt \<Rightarrow> 'f pyval \<Rightarrow> pyerr + pystr" where
  "positions_context rt positions =
     ebind (has_data rt positions) (\<lambda>ok.
       if \<not> ok then Inr []
       else
         ebind (py_getitem positions (u ''data'')) (\<lambda>d.
         ebind (py_len d) (\<lambda>n.
           if \<not> n > 0 then Inr []
           else
             ebind (py_take 5 d) (\<lambda>first.
             ebind (py_iter first) (\<lambda>items.
             ebind (context_lines (position_line rt) items) (\<lambda>ls.
               Inr (u ''Open positions:'' @ [10] @ ls @ [10])))))))"

text \<open>Line 154: the line of one decision; 8212 is the em dash.\<close>

definition decision_line :: "'f pyrt \<Rightarrow> 'f pyval \<Rightarrow> pyerr + pystr" where
  "decision_line rt d =
     ebind (get_str rt d (u ''symbol'') (PStr (u ''?''))) (\<lambda>sym.
     ebind (get_str rt d (u ''action'') (PStr (u ''?''))) (\<lambda>action.
     ebind (get_str rt d (u ''confidence'') (PStr (u ''?''))) (\<lambda>conf.
     ebind (get_str rt d (u ''reasoning'') (PStr [])) (\<lambda>reasoning.
       Inr (u ''  '' @ sym @ u '': '' @ action @ u '' conf:'' @ conf @ u '' '' @ [8212]
          @ u '' '' @ take 120 reasoning @ [10])))))"

text \<open>Lines 150 to 155: the recent decisions, at most three.\<close>

definition decisions_context :: "'f pyrt \<Rightarrow> 'f pyval \<Rightarrow> pyerr + pystr" where
  "decisions_context rt decisions =
     ebind (has_data rt decisions) (\<lambda>ok.
       if \<not> ok then Inr []
       else
         ebind (py_getitem decisions (u ''data'')) (\<lambda>d.
         ebind (py_len d) (\<lambda>n.
           if \<not> n > 0 then Inr []
           else
             ebind (py_take 3 d) (\<lambda>first.
             ebind (py_iter first) (\<lambda>items.
             ebind (context_lines (decision_line rt) items) (\<lambda>ls.
               Inr (u ''Recent decisions:'' @ [10] @ ls @ [10])))))))"

text \<open>Lines 128 to 162: the prompt; 39 is the apostrophe.\<close>

definition query_prompt ::
  "'f pyrt \<Rightarrow> 'f pyval \<Rightarrow> 'f pyval \<Rightarrow> 'f pyval \<Rightarrow> pystr \<Rightarrow> pyerr + pystr" where
  "query_prompt rt portfolio positions decisions question =
     ebind (portfolio_context rt portfolio) (\<lambda>c1.
     ebind (positions_context rt positions) (\<lambda>c2.
     ebind (decisions_context rt decisions) (\<lambda>c3.
       Inr (u ''You are a helpful trading assistant for the OpenClaw crypto trading system. ''
          @ u ''Answer the user'' @ [39] @ u ''s question based on the data below. ''
          @ u ''Be concise (under 1800 chars).'' @ [10, 10]
          @ u ''TRADING SYSTEM DATA:'' @ [10, 10] @ c1 @ c2 @ c3
          @ u ''User question: '' @ question))))"

text \<open>Line 169: the raw-data fallback.\<close>

definition raw_portfolio :: "'f pyrt \<Rightarrow> 'f pyval \<Rightarrow> pyerr + pystr" where
  "raw_portfolio rt portfolio =
     ebind (dict_get portfolio (u ''data'') (PDict [])) (\<lambda>d.
       Inr (u ''**Portfolio:**'' @ [10] @ u ''```json'' @ [10]
          @ take 1500 (json_dumps_indent2 rt d) @ [10] @ u ''```''))"

subsection \<open>Sequencing calls that use the world\<close>

definition sbind ::
  "('w \<Rightarrow> (pyerr + 'a) \<times> 'w) \<Rightarrow> ('a \<Rightarrow> 'w \<Rightarrow> (pyerr + 'b) \<times> 'w) \<Rightarrow> 'w \<Rightarrow> (pyerr + 'b) \<times> 'w" where
  "sbind m f w = (case m w of (Inl e, w') \<Rightarrow> (Inl e, w') | (Inr x, w') \<Rightarrow> f x w')"

text \<open>\<open>handle_user_query(question)\<close>.\<close>

definition handle_user_query ::
  "'f pyrt \<Rightarrow> ('f, 'w) env \<Rightarrow> pystr \<Rightarrow> 'w \<Rightarrow> (pyerr + pystr) \<times> 'w" where
  "handle_user_query rt env question =
     sbind (call_vps_api env (u ''get_portfolio_summary'') None) (\<lambda>portfolio.
     sbind (call_vps_api env (u ''get_positions'') None) (\<lambda>positions.
     sbind (call_vps_api env (u ''get_decisions'') (Some [(u ''limit'', PInt 5)])) (\<lambda>decisions w.
       case query_prompt rt portfolio positions decisions question of
         Inl e \<Rightarrow> (Inl e, w)
       | Inr prompt \<Rightarrow>
           (case call_ollama env prompt 400 w of
              (Some answer, w') \<Rightarrow>
                if answer \<noteq> [] then (Inr (take 1900 answer), w')
                else (raw_portfolio rt portfolio, w')
            | (None, w') \<Rightarrow> (raw_portfolio rt portfolio, w')))))"

section \<open>Event polling\<close>

text \<open>
  What one polling cycle does to the outside, in order: a message sent for an event, a
  send that raised, the acknowledgment call with its batch of ids, and the exception
  caught at the cycle boundary.
\<close>

datatype 'f effect =
    Sent "'f pyval" pystr
  | SendFailed "'f pyval" pystr
  | MarkPosted "'f pyval list"
  | Caught pyerr




text \<open>The ids of the events whose message was sent, in the order of sending.\<close>

fun delivered_ids :: "'f effect list \<Rightarrow> 'f pyval list" where
  "delivered_ids [] = []"
| "delivered_ids (Sent event msg # tr) =
     (case py_getitem event (u ''id'') of Inr i \<Rightarrow> i # delivered_ids tr | Inl e \<Rightarrow> delivered_ids tr)"
| "delivered_ids (x # tr) = delivered_ids tr"



section \<open>A sample runtime and sample services\<close>

text \<open>
  To run the model on concrete inputs the library functions must be fixed. In the
  sample runtime a float is carried as the text \<open>repr\<close> prints for it. \<open>json.loads\<close>
  is tabulated on two documents and refuses every other text; \<open>json.dumps\<close> is written
  out for values whose strings are plain printable ASCII, without indentation. The
  float conversions and the fixed-point format are placeholders: no example below
  applies them.
\<close>

fun sample_dumps :: "pystr pyval \<Rightarrow> pystr" where
  "sample_dumps PNone = u ''null''"
| "sample_dumps (PBool b) = (if b then u ''true'' else u ''false'')"
| "sample_dumps (PInt i) = int_str i"
| "sample_dumps (PFloat x) = x"
| "sample_dumps (PStr s) = [34] @ s @ [34]"
| "sample_dumps (PList xs) = u ''['' @ join (u '', '') (map sample_dumps xs) @ u '']''"
| "sample_dumps (PDict kvs) =
     u ''{'' @ join (u '', '') (map (\<lambda>(k, v). [34] @ k @ [34] @ u '': '' @ sample_dumps v) kvs) @ u ''}''"

definition sample_rt :: "pystr pyrt" where
  "sample_rt = \<lparr>
     json_loads = (\<lambda>s. if s = u ''{}'' then Some (PDict [])
                        else if s = u ''[1, 2]'' then Some (PList [PInt 1, PInt 2])
                        else None),
     json_dumps = sample_dumps,
     json_dumps_indent2 = sample_dumps,
     float_repr = (\<lambda>x. x),
     float_fixed = (\<lambda>n signed x. x),
     float_of_int = (\<lambda>i. Some (int_str i @ u ''.0'')),
     float_of_str = (\<lambda>s. None),
     float_truth = (\<lambda>x. x \<noteq> u ''0.0'' \<and> x \<noteq> u ''-0.0''),
     str_repr = (\<lambda>s. [39] @ s @ [39]) \<rparr>"

text \<open>Every service is down: requests raise, the backend fails, sending fails.\<close>

definition env_down :: "(pystr, unit) env" where
  "env_down = \<lparr>
     http_post = (\<lambda>w body. (Raised, w)),
     ollama_chat = (\<lambda>w prompt max_tokens. (None, w)),
     channel_send = (\<lambda>w msg. (False, w)) \<rparr>"

text \<open>The event of the SELL scenario, for any two floats.\<close>

definition sell_event :: "'f \<Rightarrow> 'f \<Rightarrow> 'f pyval" where
  "sell_event pnl pct = PDict
     [(u ''id'', PInt 1), (u ''event_type'', PStr (u ''SELL'')), (u ''symbol'', PStr (u ''BTC'')),
      (u ''metadata'', PDict [(u ''price'', PInt 65000), (u ''pnl'', PFloat pnl),
                             (u ''pnl_percent'', PFloat pct)])]"

text \<open>Two pending events, and the API answering every request with them.\<close>

definition event_b :: "pystr pyval" where
  "event_b = PDict [(u ''id'', PInt 1), (u ''event_type'', PStr (u ''ENGINE_START''))]"

definition event_a :: "pystr pyval" where
  "event_a = PDict [(u ''id'', PInt 2), (u ''event_type'', PStr (u ''ENGINE_STOP''))]"

definition two_events :: "pystr http_result" where
  "two_events = Returned \<lparr> status_code = 200,
     json = Some (PDict [(u ''data'', PList [event_b, event_a])]) \<rparr>"

text \<open>
  The world counts the messages handed to the channel. In \<open>env_flaky\<close> the first send
  succeeds and every later one raises; in \<open>env_up\<close> every send succeeds. The backend
  is down in both, so the templates format the messages.
\<close>

definition env_flaky :: "(pystr, nat) env" where
  "env_flaky = \<lparr>
     http_post = (\<lambda>w body. (two_events, w)),
     ollama_chat = (\<lambda>w prompt max_tokens. (None, w)),
     channel_send = (\<lambda>w msg. (w = 0, Suc w)) \<rparr>"


section \<open>Notions used to state the properties\<close>

text \<open>
  What the Generative Formatter yields for an event in a given world: \<open>None\<close> when the
  prompt cannot be built or the backend call fails.
\<close>

definition generative_result :: "'f pyrt \<Rightarrow> ('f, 'w) env \<Rightarrow> 'f pyval \<Rightarrow> 'w \<Rightarrow> pystr option" where
  "generative_result rt env event w =
     (case event_prompt rt event of
        Inl e \<Rightarrow> None
      | Inr prompt \<Rightarrow> fst (call_ollama env prompt 200 w))"

text \<open>
  The events on which the templates are expected to return, stated from the raw
  fields of the event. \<open>field\<close> reads a key of a dict with a default. The metadata
  the templates should see is the raw value, decoded when it is a string, with a
  string that does not decode and every false value replaced by the empty dict. An
  event is renderable when it is a dict, its type can be looked up in the template
  table, a known type finds a dict as metadata, and the two amounts of an hourly
  summary are numbers that convert to float.
\<close>

definition field :: "(pystr \<times> 'f pyval) list \<Rightarrow> pystr \<Rightarrow> 'f pyval \<Rightarrow> 'f pyval" where
  "field kvs k dflt = (case map_of kvs k of Some v \<Rightarrow> v | None \<Rightarrow> dflt)"

fun decoded_metadata :: "'f pyrt \<Rightarrow> 'f pyval \<Rightarrow> 'f pyval" where
  "decoded_metadata rt (PStr s) =
     (case json_loads rt s of
        None \<Rightarrow> PDict []
      | Some v \<Rightarrow> if py_bool rt v then v else PDict [])"
| "decoded_metadata rt raw = (if py_bool rt raw then raw else PDict [])"

fun is_dict :: "'f pyval \<Rightarrow> bool" where
  "is_dict (PDict kvs) = True"
| "is_dict v = False"

fun is_number :: "'f pyrt \<Rightarrow> 'f pyval \<Rightarrow> bool" where
  "is_number rt (PFloat x) = True"
| "is_number rt (PInt i) = (float_of_int rt i \<noteq> None)"
| "is_number rt (PBool b) = (float_of_int rt (if b then 1 else 0) \<noteq> None)"
| "is_number rt v = False"

definition known_event_types :: "pystr list" where
  "known_event_types = [u ''BUY'', u ''SELL'', u ''DCA'', u ''PARTIAL_EXIT'', u ''CIRCUIT_BREAKER'',
     u ''HOURLY_SUMMARY'', u ''ENGINE_START'', u ''ENGINE_STOP'']"

definition number_field :: "'f pyrt \<Rightarrow> 'f pyval \<Rightarrow> pystr \<Rightarrow> bool" where
  "number_field rt meta k = (case dict_get meta k (PInt 0) of Inr v \<Rightarrow> is_number rt v | Inl e \<Rightarrow> False)"

definition renderable_event :: "'f pyrt \<Rightarrow> 'f pyval \<Rightarrow> bool" where
  "renderable_event rt event \<longleftrightarrow>
     (case event of
        PDict kvs \<Rightarrow>
          hashable (field kvs (u ''event_type'') (PStr (u ''UNKNOWN''))) \<and>
          (field kvs (u ''event_type'') (PStr (u ''UNKNOWN'')) \<in> PStr ` set known_event_types \<longrightarrow>
             is_dict (decoded_metadata rt (field kvs (u ''metadata'') PNone))) \<and>
          (field kvs (u ''event_type'') (PStr (u ''UNKNOWN'')) = PStr (u ''HOURLY_SUMMARY'') \<longrightarrow>
             number_field rt (decoded_metadata rt (field kvs (u ''metadata'') PNone)) (u ''unrealized_pnl'') \<and>
             number_field rt (decoded_metadata rt (field kvs (u ''metadata'') PNone)) (u ''realized_pnl''))
      | _ \<Rightarrow> False)"



text \<open>More sample inputs: a backend that always answers, and a BUY event whose symbol has 600 characters.\<close>

definition env_text :: "pystr \<Rightarrow> (pystr, unit) env" where
  "env_text answer = \<lparr>
     http_post = (\<lambda>w body. (Raised, w)),
     ollama_chat = (\<lambda>w prompt max_tokens. (Some answer, w)),
     channel_send = (\<lambda>w msg. (True, w)) \<rparr>"

definition long_symbol_event :: "pystr pyval" where
  "long_symbol_event = PDict [(u ''event_type'', PStr (u ''BUY'')),
     (u ''symbol'', PStr (replicate 600 88))]"

definition undecodable_event :: "pystr pyval" where
  "undecodable_event = PDict [(u ''metadata'', PStr (u ''not json''))]"

definition buy_undecodable_event :: "pystr pyval" where
  "buy_undecodable_event = PDict [(u ''event_type'', PStr (u ''BUY'')),
     (u ''metadata'', PStr (u ''not json''))]"


text \<open>The messages the templates give for the two sample events.\<close>

definition message_b :: pystr where
  "message_b = [128640] @ u '' **Engine Started** | ? symbols | $? capital | Paper: ?''"

definition message_a :: pystr where
  "message_a = [128721] @ u '' **Engine Stopped** | ? cycles completed''"

section \<open>Properties of the API client\<close>

text \<open>
  C8. For every action and parameter map \<open>call_vps_api\<close> returns and never raises: it
  returns the parsed JSON of the response when the request returned with status 200 and
  the body parsed, and \<open>None\<close> in every other case (another status, a transport failure
  or timeout, a body that does not parse). It makes exactly one request: the world
  afterwards is the world after that single \<open>http_post\<close>, so nothing is retried.
\<close>

theorem call_vps_api_total:
  "call_vps_api env action extra_data w =
     (Inr (case fst (http_post env w (request_body action extra_data)) of
             Raised \<Rightarrow> PNone
           | Returned resp \<Rightarrow>
               if status_code resp = 200 then (case json resp of Some v \<Rightarrow> v | None \<Rightarrow> PNone)
               else PNone),
      snd (http_post env w (request_body action extra_data)))"
  by (simp add: call_vps_api_def try_post_def
      split: prod.splits http_result.splits option.splits sum.splits)

section \<open>Properties of the formatters\<close>

lemmas eval_defs = format_event_fallback_def fallback_metadata_def ebind_def get_str_def
  py_str_def u_def int_str_def digits.simps

lemmas pipeline_defs = format_event_with_ollama_def generative_result_def event_prompt_def
  prompt_metadata_def call_ollama_def has_text_def

subsection \<open>When the templates return\<close>

lemma format_f_Inl: "format_f rt n signed v = Inl e \<Longrightarrow> \<not> is_number rt v"
  by (cases v) (auto split: option.splits)

lemma format_f_Inr: "format_f rt n signed v = Inr s \<Longrightarrow> is_number rt v"
  by (cases v) (auto split: option.splits)

lemma get_str_dict:
  "get_str rt (PDict kvs) k d = Inr (py_str rt (case map_of kvs k of Some v \<Rightarrow> v | None \<Rightarrow> d))"
  by (simp add: get_str_def ebind_def)

lemma get_str_other: "\<not> is_dict m \<Longrightarrow> get_str rt m k d = Inl AttributeError"
  by (cases m) (simp_all add: get_str_def ebind_def)

lemma dict_get_other: "\<not> is_dict m \<Longrightarrow> dict_get m k d = Inl AttributeError"
  by (cases m) simp_all

lemma fallback_metadata_decoded:
  "fallback_metadata rt (PDict kvs) = Inr (decoded_metadata rt (field kvs (u ''metadata'') PNone))"
  by (cases "field kvs (u ''metadata'') PNone")
     (auto simp: fallback_metadata_def ebind_def field_def Let_def split: option.splits)

lemma renderable_iff:
  "(\<exists>s. format_event_fallback rt event = Inr s) \<longleftrightarrow> renderable_event rt event"
proof (cases event)
  case (PDict kvs)
  define et where "et = field kvs (u ''event_type'') (PStr (u ''UNKNOWN''))"
  define meta where "meta = decoded_metadata rt (field kvs (u ''metadata'') PNone)"
  have R: "renderable_event rt event \<longleftrightarrow>
      hashable et \<and> (et \<in> PStr ` set known_event_types \<longrightarrow> is_dict meta) \<and>
      (et = PStr (u ''HOURLY_SUMMARY'') \<longrightarrow>
         number_field rt meta (u ''unrealized_pnl'') \<and> number_field rt meta (u ''realized_pnl''))"
    by (simp add: PDict renderable_event_def et_def meta_def)
  have E: "dict_get event (u ''event_type'') (PStr (u ''UNKNOWN'')) = Inr et"
    by (simp add: PDict et_def field_def)
  have M: "fallback_metadata rt event = Inr meta"
    by (simp add: PDict meta_def fallback_metadata_decoded)
  obtain sym where S: "dict_get event (u ''symbol'') (PStr []) = Inr sym"
    by (simp add: PDict)
  show ?thesis
  proof (cases "is_dict meta")
    case True
    then obtain ms where ms: "meta = PDict ms" by (cases meta) simp_all
    show ?thesis
      unfolding R format_event_fallback_def E M S ms
      by (auto simp: ebind_def get_str_dict known_event_types_def number_field_def u_def
               split: sum.splits dest: format_f_Inl format_f_Inr)
  next
    case False
    then show ?thesis
      unfolding R format_event_fallback_def E M S
      by (auto simp: ebind_def get_str_other dict_get_other known_event_types_def
               number_field_def u_def)
  qed
qed (simp_all add: format_event_fallback_def renderable_event_def ebind_def)

text \<open>
  C3, as the code has it. \<open>format_event_fallback\<close> is not total. It returns a string
  exactly on the renderable events: the event is a dict, its \<open>event_type\<close> is hashable,
  for the eight known types the metadata (decoded when it is a string; a string that
  does not decode and every false value replaced by the empty dict) is a dict, and for
  \<open>HOURLY_SUMMARY\<close> the fields \<open>unrealized_pnl\<close> and \<open>realized_pnl\<close>, when present, are
  numbers that convert to float. In particular it returns, for any symbol or none and
  any hashable event type, when the metadata is missing, \<open>None\<close>, empty or a string that
  does not decode (given that the int 0 converts to float); when the event type is
  unknown, whatever the metadata; and when the metadata is a dict, whatever its keys
  and values, for every type but \<open>HOURLY_SUMMARY\<close>.
\<close>

theorem format_event_fallback_returns_iff:
  "((\<exists>s. format_event_fallback rt event = Inr s) \<longleftrightarrow> renderable_event rt event) \<and>
   (hashable (field kvs (u ''event_type'') (PStr (u ''UNKNOWN''))) \<and>
    (field kvs (u ''metadata'') PNone = PNone \<or> field kvs (u ''metadata'') PNone = PDict [] \<or>
     (\<exists>s. field kvs (u ''metadata'') PNone = PStr s \<and> json_loads rt s = None)) \<and>
    float_of_int rt 0 \<noteq> None
    \<longrightarrow> (\<exists>s. format_event_fallback rt (PDict kvs) = Inr s)) \<and>
   (hashable (field kvs (u ''event_type'') (PStr (u ''UNKNOWN''))) \<and>
    field kvs (u ''event_type'') (PStr (u ''UNKNOWN'')) \<notin> PStr ` set known_event_types
    \<longrightarrow> (\<exists>s. format_event_fallback rt (PDict kvs) = Inr s)) \<and>
   (hashable (field kvs (u ''event_type'') (PStr (u ''UNKNOWN''))) \<and>
    is_dict (field kvs (u ''metadata'') PNone) \<and>
    field kvs (u ''event_type'') (PStr (u ''UNKNOWN'')) \<noteq> PStr (u ''HOURLY_SUMMARY'')
    \<longrightarrow> (\<exists>s. format_event_fallback rt (PDict kvs) = Inr s))"
proof -
  have unknown: "PStr (u ''HOURLY_SUMMARY'') \<in> PStr ` set known_event_types"
    by (simp add: known_event_types_def)
  have empty: "number_field rt (PDict []) k" if "float_of_int rt 0 \<noteq> None" for k
    using that by (simp add: number_field_def)
  have dict: "is_dict (decoded_metadata rt m)" if "is_dict m" for m
    using that by (cases m) auto
  show ?thesis
    unfolding renderable_iff
    using unknown empty dict
    by (auto simp: renderable_event_def)
qed

theorem format_event_fallback_returns_witness:
  "renderable_event sample_rt buy_undecodable_event \<and>
   json_loads sample_rt (u ''not json'') = None \<and>
   float_of_int sample_rt 0 \<noteq> None \<and>
   format_event_fallback sample_rt buy_undecodable_event
     = Inr ([128994] @ u '' **BUY**  @ $? | Conf: ? | '')"
  using format_event_fallback_returns_iff [of sample_rt buy_undecodable_event
      "[(u ''event_type'', PStr (u ''BUY'')), (u ''metadata'', PStr (u ''not json''))]"]
  by (simp add: buy_undecodable_event_def eval_defs sample_rt_def)

text \<open>
  The claim as stated fails: an hourly summary whose \<open>unrealized_pnl\<close> is the string
  \<open>12.5\<close> raises \<open>ValueError\<close>, a BUY event whose metadata string decodes to a list
  raises \<open>AttributeError\<close>, and an event whose type is a list raises \<open>TypeError\<close>.
\<close>

theorem format_event_fallback_raises:
  "format_event_fallback sample_rt
     (PDict [(u ''event_type'', PStr (u ''HOURLY_SUMMARY'')),
             (u ''metadata'', PDict [(u ''unrealized_pnl'', PStr (u ''12.5''))])]) = Inl ValueError \<and>
   format_event_fallback sample_rt
     (PDict [(u ''event_type'', PStr (u ''BUY'')), (u ''metadata'', PStr (u ''[1, 2]''))])
       = Inl AttributeError \<and>
   format_event_fallback sample_rt (PDict [(u ''event_type'', PList [])]) = Inl TypeError"
  by (simp add: eval_defs sample_rt_def)

subsection \<open>The two branches of the pipeline\<close>

lemma event_prompt_error:
  "event_prompt rt event = Inl e \<Longrightarrow> format_event_fallback rt event = Inl e"
  by (cases event) (simp_all add: event_prompt_def prompt_metadata_def format_event_fallback_def
      get_str_def ebind_def split: pyval.splits option.splits)

lemma pipeline_without_text:
  assumes "\<And>p. event_prompt rt event = Inr p \<Longrightarrow> \<not> has_text (fst (call_ollama env p 200 w))"
  shows "fst (format_event_with_ollama rt env event w) = format_event_fallback rt event"
proof (cases "event_prompt rt event")
  case (Inl e)
  then show ?thesis
    by (simp add: format_event_with_ollama_def event_prompt_error)
next
  case (Inr p)
  with assms have "\<not> has_text (fst (call_ollama env p 200 w))" by simp
  with Inr show ?thesis
    by (auto simp: format_event_with_ollama_def has_text_def split: prod.splits option.splits)
qed

lemma fallback_nonempty: "format_event_fallback rt event = Inr s \<Longrightarrow> s \<noteq> []"
  by (auto simp: format_event_fallback_def ebind_def split: sum.splits if_splits)

lemma pipeline_with_text:
  assumes "event_prompt rt event = Inr p" and "has_text (fst (call_ollama env p 200 w))"
  shows "\<exists>s. fst (format_event_with_ollama rt env event w) = Inr s \<and> s \<noteq> [] \<and> length s \<le> 500"
  using assms
  by (auto simp: format_event_with_ollama_def has_text_def split: prod.splits option.splits)

lemma pipeline_fallback:
  "\<not> has_text (generative_result rt env event w) \<Longrightarrow>
   fst (format_event_with_ollama rt env event w) = format_event_fallback rt event"
  by (rule pipeline_without_text) (simp add: generative_result_def)

lemma pipeline_generative:
  "has_text (generative_result rt env event w) \<Longrightarrow>
   \<exists>s. fst (format_event_with_ollama rt env event w) = Inr s \<and> s \<noteq> [] \<and> length s \<le> 500"
  by (cases "event_prompt rt event")
     (auto simp: generative_result_def has_text_def dest: pipeline_with_text [unfolded has_text_def])

text \<open>
  C9. The SELL scenario: for the event with id 1, type SELL, symbol BTC and metadata
  price 65000, pnl 120.5, pnl_percent 1.8 the template formatter returns exactly the
  red circle (code point 128308) followed by \<open> **SELL** BTC @ $65000 | P&L: $120.5 (1.8%)\<close>,
  and so does the pipeline whenever the generative backend yields no text. The two
  floats enter through what \<open>repr\<close> prints for them.
\<close>

theorem sell_scenario:
  assumes "float_repr rt pnl = u ''120.5''" and "float_repr rt pct = u ''1.8''"
  shows "format_event_fallback rt (sell_event pnl pct)
           = Inr ([128308] @ u '' **SELL** BTC @ $65000 | P&L: $120.5 (1.8%)'') \<and>
         (\<not> has_text (generative_result rt env (sell_event pnl pct) w) \<longrightarrow>
            fst (format_event_with_ollama rt env (sell_event pnl pct) w)
              = Inr ([128308] @ u '' **SELL** BTC @ $65000 | P&L: $120.5 (1.8%)''))"
proof -
  have "format_event_fallback rt (sell_event pnl pct)
      = Inr ([128308] @ u '' **SELL** BTC @ $65000 | P&L: $120.5 (1.8%)'')"
    using assms by (simp add: sell_event_def eval_defs)
  then show ?thesis by (simp add: pipeline_fallback)
qed

theorem sell_scenario_witness:
  "float_repr sample_rt (u ''120.5'') = u ''120.5'' \<and>
   float_repr sample_rt (u ''1.8'') = u ''1.8'' \<and>
   \<not> has_text (generative_result sample_rt env_down (sell_event (u ''120.5'') (u ''1.8'')) ()) \<and>
   format_event_fallback sample_rt (sell_event (u ''120.5'') (u ''1.8''))
     = Inr ([128308] @ u '' **SELL** BTC @ $65000 | P&L: $120.5 (1.8%)'') \<and>
   fst (format_event_with_ollama sample_rt env_down (sell_event (u ''120.5'') (u ''1.8'')) ())
     = Inr ([128308] @ u '' **SELL** BTC @ $65000 | P&L: $120.5 (1.8%)'')"
proof -
  have silent: "\<not> has_text (generative_result sample_rt env_down
      (sell_event (u ''120.5'') (u ''1.8'')) ())"
    by (simp add: generative_result_def call_ollama_def has_text_def env_down_def
        split: sum.splits)
  from sell_scenario [of sample_rt "u ''120.5''" "u ''1.8''" env_down "()"] silent
  show ?thesis by (simp add: sample_rt_def)
qed

text \<open>
  C6. Fallback equivalence: whenever the Generative Formatter yields no text for an
  event (the backend failed, or answered with the empty string), the result of
  \<open>format_event_with_ollama\<close> is exactly the result of \<open>format_event_fallback\<close> on the
  same event, be it a string or an exception.
\<close>

theorem fallback_equivalence:
  assumes "\<not> has_text (generative_result rt env event w)"
  shows "fst (format_event_with_ollama rt env event w) = format_event_fallback rt event"
proof (cases "event_prompt rt event")
  case (Inl e)
  then show ?thesis
    by (simp add: format_event_with_ollama_def event_prompt_error)
next
  case (Inr prompt)
  with assms have "\<not> has_text (fst (call_ollama env prompt 200 w))"
    by (simp add: generative_result_def)
  with Inr show ?thesis
    by (auto simp: format_event_with_ollama_def has_text_def split: prod.splits option.splits)
qed

theorem fallback_equivalence_witness:
  "\<not> has_text (generative_result sample_rt env_down event_b ()) \<and>
   fst (format_event_with_ollama sample_rt env_down event_b ()) = Inr message_b \<and>
   format_event_fallback sample_rt event_b = Inr message_b"
  using fallback_equivalence [of sample_rt env_down event_b "()"]
  by (simp add: pipeline_defs env_down_def event_b_def message_b_def eval_defs sample_rt_def)

text \<open>
  C10. Determinism of the fallback tier. \<open>format_event_fallback\<close> takes the event (and
  the pure library functions) and nothing else: no world, no service. So two runs of
  the pipeline on the same event, against any two environments and in any two worlds,
  give the same result whenever the generative tier yields no text in both, and that
  result is the one of \<open>format_event_fallback\<close>.
\<close>

theorem fallback_deterministic:
  assumes "\<not> has_text (generative_result rt env1 event w1)"
      and "\<not> has_text (generative_result rt env2 event w2)"
  shows "fst (format_event_with_ollama rt env1 event w1)
           = fst (format_event_with_ollama rt env2 event w2) \<and>
         fst (format_event_with_ollama rt env2 event w2) = format_event_fallback rt event"
  using assms by (simp add: pipeline_fallback)

theorem fallback_deterministic_witness:
  "\<not> has_text (generative_result sample_rt env_down event_a ()) \<and>
   \<not> has_text (generative_result sample_rt env_flaky event_a (7::nat)) \<and>
   fst (format_event_with_ollama sample_rt env_down event_a ()) = Inr message_a \<and>
   fst (format_event_with_ollama sample_rt env_flaky event_a (7::nat)) = Inr message_a"
  using fallback_deterministic [of sample_rt env_down event_a "()" env_flaky "7::nat"]
  by (simp add: pipeline_defs env_down_def env_flaky_def event_a_def message_a_def eval_defs
      sample_rt_def)

text \<open>
  C4, as the code has it. On the generative branch \<open>format_event_with_ollama\<close> returns
  a non-empty string of at most 500 characters. On the fallback branch it returns what
  \<open>format_event_fallback\<close> returns, uncut: when that is a string it is non-empty (it
  starts with the emoji of its template), but its length is not bounded by 500, and it
  may be an exception instead.
\<close>

theorem event_message_bounds:
  "(has_text (generative_result rt env event w) \<longrightarrow>
      (\<exists>s. fst (format_event_with_ollama rt env event w) = Inr s \<and> s \<noteq> [] \<and> length s \<le> 500)) \<and>
   (\<not> has_text (generative_result rt env event w) \<longrightarrow>
      fst (format_event_with_ollama rt env event w) = format_event_fallback rt event \<and>
      (\<forall>s. format_event_fallback rt event = Inr s \<longrightarrow> s \<noteq> []))"
  using pipeline_generative [of rt env event w] pipeline_fallback [of rt env event w]
    fallback_nonempty [of rt event]
  by blast

theorem event_message_bounds_witness:
  "has_text (generative_result sample_rt (env_text (u ''Engine is up'')) event_b ()) \<and>
   fst (format_event_with_ollama sample_rt (env_text (u ''Engine is up'')) event_b ())
     = Inr (u ''Engine is up'') \<and>
   \<not> has_text (generative_result sample_rt env_down event_b ()) \<and>
   fst (format_event_with_ollama sample_rt env_down event_b ()) = Inr message_b \<and>
   message_b \<noteq> []"
  using event_message_bounds [of sample_rt "env_text (u ''Engine is up'')" event_b "()"]
    event_message_bounds [of sample_rt env_down event_b "()"]
  by (simp add: pipeline_defs env_text_def env_down_def event_b_def message_b_def eval_defs
      sample_rt_def strip_def py_isspace_def)

text \<open>
  The claim as stated fails on the fallback branch: with the backend down, a BUY event
  whose symbol has 600 characters is formatted to a message of 628 characters.
\<close>

theorem event_message_too_long:
  "map_sum id length (fst (format_event_with_ollama sample_rt env_down long_symbol_event ()))
     = Inr 628"
  by (simp add: format_event_with_ollama_def event_prompt_def prompt_metadata_def call_ollama_def
      env_down_def long_symbol_event_def eval_defs sample_rt_def)

subsection \<open>Metadata that does not decode\<close>

lemma metadata_key_distinct:
  "u ''event_type'' \<noteq> u ''metadata''" "u ''symbol'' \<noteq> u ''metadata''"
  by (simp_all add: u_def)

text \<open>
  C7, as the code has it. When the metadata of an event is a string that does not
  decode, neither formatter fails at the decode step, but they differ in what they
  keep. \<open>format_event_with_ollama\<close> keeps the string itself: the prompt it builds and
  hands to the backend carries the JSON encoding of the string, cut to 500 characters,
  in its Data line. \<open>format_event_fallback\<close> replaces the string by the empty dict: the
  templates read placeholders, and the message is the one of the same event with
  empty metadata.
\<close>

theorem undecodable_metadata:
  assumes "map_of kvs (u ''metadata'') = Some (PStr s)" and "json_loads rt s = None"
  shows "prompt_metadata rt (PDict kvs) = Inr (PStr s) \<and>
         (\<exists>prompt.
            prompt = u ''Format this trading event as a short Discord message. ''
              @ u ''Use emoji. Keep under 300 characters. Be concise.'' @ [10, 10]
              @ u ''Type: '' @ py_str rt (field kvs (u ''event_type'') PNone) @ [10]
              @ u ''Symbol: '' @ py_str rt (field kvs (u ''symbol'') (PStr (u ''N/A''))) @ [10]
              @ u ''Data: '' @ take 500 (json_dumps rt (PStr s)) @ [10]
              @ u ''Time: '' @ py_str rt (field kvs (u ''created_at'') (PStr [])) \<and>
            event_prompt rt (PDict kvs) = Inr prompt \<and>
            generative_result rt env (PDict kvs) w = fst (call_ollama env prompt 200 w)) \<and>
         fallback_metadata rt (PDict kvs) = Inr (PDict []) \<and>
         format_event_fallback rt (PDict kvs)
           = format_event_fallback rt (PDict (AList.update (u ''metadata'') (PDict []) kvs))"
  using assms metadata_key_distinct
  by (simp add: prompt_metadata_def event_prompt_def generative_result_def get_str_def
      fallback_metadata_def format_event_fallback_def ebind_def update_conv' field_def)

theorem undecodable_metadata_witness:
  "map_of [(u ''metadata'', PStr (u ''not json''))] (u ''metadata'') = Some (PStr (u ''not json'')) \<and>
   json_loads sample_rt (u ''not json'') = None \<and>
   prompt_metadata sample_rt undecodable_event = Inr (PStr (u ''not json'')) \<and>
   event_prompt sample_rt undecodable_event
     = Inr (u ''Format this trading event as a short Discord message. ''
          @ u ''Use emoji. Keep under 300 characters. Be concise.'' @ [10, 10]
          @ u ''Type: None'' @ [10] @ u ''Symbol: N/A'' @ [10]
          @ u ''Data: '' @ [34] @ u ''not json'' @ [34] @ [10] @ u ''Time: '') \<and>
   fallback_metadata sample_rt undecodable_event = Inr (PDict [])"
  using undecodable_metadata [of "[(u ''metadata'', PStr (u ''not json''))]" "u ''not json''" sample_rt env_down "()"]
  by (simp add: undecodable_event_def sample_rt_def u_def field_def py_str_def)

text \<open>
  The claim as stated fails for \<open>format_event_fallback\<close>: the string \<open>not json\<close> does
  not decode, the templates get the empty dict, and nothing of the string is left in
  the message (128204 is the pushpin).
\<close>

theorem undecodable_metadata_discarded:
  "json_loads sample_rt (u ''not json'') = None \<and>
   fallback_metadata sample_rt undecodable_event = Inr (PDict []) \<and>
   format_event_fallback sample_rt undecodable_event = Inr ([128204] @ u '' **UNKNOWN**  | {}'')"
  by (simp add: undecodable_event_def eval_defs sample_rt_def)

section \<open>Properties of the query handler\<close>

lemma call_vps_api_down:
  assumes "\<And>w body. fst (http_post env w body) = Raised"
  shows "fst (call_vps_api env action extra w) = Inr PNone"
  using assms [of w "request_body action extra"]
  by (cases "http_post env w (request_body action extra)")
     (simp add: call_vps_api_def try_post_def)

lemma call_ollama_down:
  assumes "\<And>w p n. fst (ollama_chat env w p n) = None"
  shows "fst (call_ollama env p n w) = None"
  using assms [of w p n]
  by (cases "ollama_chat env w p n") (simp add: call_ollama_def)

lemma query_prompt_unavailable:
  "\<exists>p. query_prompt rt PNone PNone PNone question = Inr p"
  by (simp add: query_prompt_def portfolio_context_def positions_context_def
      decisions_context_def has_data_def ebind_def)

text \<open>
  C2. The claim is that \<open>handle_user_query\<close> always returns a non-empty reply. The code
  does not: when the API is unreachable the portfolio is \<open>None\<close>, and when the backend
  gives no answer either, the raw-data fallback calls \<open>portfolio.get\<close> on \<open>None\<close> and
  raises \<open>AttributeError\<close>. The theorem evaluates the code there.
\<close>

theorem handle_user_query_unavailable:
  assumes http: "\<And>w body. fst (http_post env w body) = Raised"
      and gen: "\<And>w p n. fst (ollama_chat env w p n) = None"
  shows "fst (handle_user_query rt env question w) = Inl AttributeError"
proof -
  obtain w1 where c1: "call_vps_api env (u ''get_portfolio_summary'') None w = (Inr PNone, w1)"
    using call_vps_api_down [OF http] by (metis prod.collapse)
  obtain w2 where c2: "call_vps_api env (u ''get_positions'') None w1 = (Inr PNone, w2)"
    using call_vps_api_down [OF http] by (metis prod.collapse)
  obtain w3 where c3: "call_vps_api env (u ''get_decisions'') (Some [(u ''limit'', PInt 5)]) w2
      = (Inr PNone, w3)"
    using call_vps_api_down [OF http] by (metis prod.collapse)
  obtain p where p: "query_prompt rt PNone PNone PNone question = Inr p"
    using query_prompt_unavailable by blast
  obtain w4 where c4: "call_ollama env p 400 w3 = (None, w4)"
    using call_ollama_down [OF gen] by (metis prod.collapse)
  show ?thesis
    by (simp add: handle_user_query_def sbind_def c1 c2 c3 p c4 raw_portfolio_def ebind_def)
qed

theorem handle_user_query_unavailable_witness:
  "(\<forall>w body. fst (http_post env_down w body) = Raised) \<and>
   (\<forall>w p n. fst (ollama_chat env_down w p n) = None) \<and>
   fst (handle_user_query sample_rt env_down (u ''How is the portfolio?'') ()) = Inl AttributeError"
  using handle_user_query_unavailable [of env_down sample_rt "u ''How is the portfolio?''" "()"]
  by (simp add: env_down_def)

section \<open>Properties of the polling cycle\<close>

lemma delivered_ids_append: "delivered_ids (xs @ ys) = delivered_ids xs @ delivered_ids ys"
  by (induction xs rule: delivered_ids.induct) (auto split: sum.splits)















end
